theory Spec2Isabelle
  imports Main "HOL-Library.Multiset" "HOL-Library.List_Lexorder" "HOL-Library.Char_ord"
begin

section \<open>Errors and JavaScript values\<close>

text \<open>
  Every \<^verbatim>\<open>throw\<close> of the handlers is a value: \<open>DubApiError code message\<close> for
  \<^verbatim>\<open>new DubApiError({code, message})\<close>, \<open>Error message\<close> for \<^verbatim>\<open>new Error(message)\<close>,
  \<open>PrismaClientKnownRequestError code\<close> for a store operation rejected by the data,
  \<open>PrismaClientUnknownRequestError\<close> for one the store rejects otherwise, \<open>TypeError\<close> for a
  property read on \<^verbatim>\<open>undefined\<close> and \<open>ZodError\<close> for a rejected schema parse.
\<close>

datatype error =
    DubApiError string string
  | Error string
  | PrismaClientKnownRequestError string
  | PrismaClientUnknownRequestError string
  | TypeError string
  | ZodError string

text \<open>
  A nullable string column is a \<open>string option\<close> (\<open>None\<close> is \<^verbatim>\<open>null\<close>). Used as a
  condition, JavaScript takes \<^verbatim>\<open>null\<close> and the empty string as false.
\<close>

definition truthy :: "string option \<Rightarrow> bool" where
  "truthy v = (case v of None \<Rightarrow> False | Some s \<Rightarrow> s \<noteq> [])"

section \<open>Data model\<close>

record program =
  p_id :: string
  p_workspaceId :: string
  p_defaultDiscountId :: "string option"

record discount =
  d_id :: string
  d_programId :: string
  d_amount :: int
  d_type :: string
  d_maxDuration :: "int option"
  d_couponId :: "string option"
  d_couponTestId :: "string option"

record programEnrollment =
  pe_id :: string
  pe_programId :: string
  pe_partnerId :: string
  pe_discountId :: "string option"

record partner =
  pt_id :: string
  pt_name :: string
  pt_image :: "string option"
  pt_email :: "string option"
  pt_country :: "string option"

record customer =
  cu_id :: string
  cu_name :: string

record commission =
  c_id :: string
  c_programId :: string
  c_partnerId :: string
  c_customerId :: string
  c_payoutId :: "string option"
  c_status :: string
  c_type :: string
  c_amount :: int
  c_earnings :: int
  c_createdAt :: int

record auditLog =
  al_action :: string
  al_workspace_id :: string
  al_program_id :: string
  al_actor_id :: string
  al_actor_name :: string
  al_targets :: "(string \<times> string) list"
  al_description :: string

text \<open>
  The store behind the \<^verbatim>\<open>prisma\<close> client: one list of rows per table, in the order
  the rows were inserted, and the audit log sink. \<open>readOrder\<close> is the order in which the
  store returns the rows of the enrollment table to a query that names no order (the
  only such queries of the handlers read this table): the store's choice, some
  arrangement of the rows it is given.
\<close>

record db =
  programs :: "program list"
  discounts :: "discount list"
  programEnrollments :: "programEnrollment list"
  partners :: "partner list"
  customers :: "customer list"
  commissions :: "commission list"
  auditLogs :: "auditLog list"
  readOrder :: "programEnrollment list \<Rightarrow> programEnrollment list"

record workspace =
  ws_id :: string
  ws_defaultProgramId :: "string option"

record user =
  u_id :: string
  u_name :: string

record ctx =
  ctx_workspace :: workspace
  ctx_user :: user

section \<open>Store operations\<close>

text \<open>\<^verbatim>\<open>prisma.discount.create\<close>: the primary key \<open>id\<close> is unique, a second row with an
  existing key is rejected and nothing is written.\<close>

definition discount_create :: "discount \<Rightarrow> db \<Rightarrow> (error + discount) \<times> db" where
  "discount_create d s =
     (if d_id d \<in> set (map d_id (discounts s))
      then (Inl (PrismaClientKnownRequestError ''P2002''), s)
      else (Inr d, s\<lparr>discounts := discounts s @ [d]\<rparr>))"

text \<open>\<^verbatim>\<open>prisma.programEnrollment.findMany({where})\<close> with no \<^verbatim>\<open>orderBy\<close>: the matching rows in
  the order in which the store returns them.\<close>

definition programEnrollment_findMany ::
  "(programEnrollment \<Rightarrow> bool) \<Rightarrow> db \<Rightarrow> programEnrollment list" where
  "programEnrollment_findMany wh s = filter wh (readOrder s (programEnrollments s))"

text \<open>\<^verbatim>\<open>prisma.programEnrollment.updateMany({where, data: {discountId}})\<close>.\<close>

definition programEnrollment_updateMany ::
  "(programEnrollment \<Rightarrow> bool) \<Rightarrow> string \<Rightarrow> db \<Rightarrow> db" where
  "programEnrollment_updateMany wh discountId s =
     s\<lparr>programEnrollments :=
         map (\<lambda>pe. if wh pe then pe\<lparr>pe_discountId := Some discountId\<rparr> else pe)
           (programEnrollments s)\<rparr>"

text \<open>\<^verbatim>\<open>prisma.program.update({where: {id}, data: {defaultDiscountId}})\<close>: rejected when no
  row has the key.\<close>

definition program_update :: "string \<Rightarrow> string \<Rightarrow> db \<Rightarrow> (error + unit) \<times> db" where
  "program_update programId discountId s =
     (if programId \<in> set (map p_id (programs s))
      then (Inr (),
            s\<lparr>programs :=
                map (\<lambda>p. if p_id p = programId
                          then p\<lparr>p_defaultDiscountId := Some discountId\<rparr> else p)
                  (programs s)\<rparr>)
      else (Inl (PrismaClientKnownRequestError ''P2025''), s))"

section \<open>Collaborators of the handlers\<close>

text \<open>
  Modelled from the spec: \<^verbatim>\<open>getProgramOrThrow\<close> (lib/api/programs/get-program-or-throw) is
  not among the sources. The spec: resolve the Program by \<open>programId\<close>; fail with NotFound
  if it is absent or not owned by the caller's workspace.
\<close>

definition getProgramOrThrow :: "string \<Rightarrow> string \<Rightarrow> db \<Rightarrow> error + program" where
  "getProgramOrThrow workspaceId programId s =
     (case find (\<lambda>p. p_id p = programId \<and> p_workspaceId p = workspaceId) (programs s) of
        None \<Rightarrow> Inl (DubApiError ''not_found'' ''Program not found'')
      | Some p \<Rightarrow> Inr p)"

text \<open>
  Modelled from the spec: \<^verbatim>\<open>getDiscountOrThrow\<close> (lib/api/partners/get-discount-or-throw)
  is not among the sources. The spec: the discount must exist within that program, else
  NotFound.
\<close>

definition getDiscountOrThrow :: "string \<Rightarrow> string \<Rightarrow> db \<Rightarrow> error + discount" where
  "getDiscountOrThrow programId discountId s =
     (case find (\<lambda>d. d_id d = discountId \<and> d_programId d = programId) (discounts s) of
        None \<Rightarrow> Inl (DubApiError ''not_found'' ''Discount not found'')
      | Some d \<Rightarrow> Inr d)"

text \<open>
  Modelled from the spec: \<^verbatim>\<open>recordAuditLog\<close> (lib/api/audit-logs/record-audit-log) is not
  among the sources. The spec: the audit sink receives the event; its failure never fails
  the operation. The event is appended to the sink.
\<close>

definition recordAuditLog :: "auditLog \<Rightarrow> db \<Rightarrow> db" where
  "recordAuditLog ev s = s\<lparr>auditLogs := auditLogs s @ [ev]\<rparr>"

section \<open>createDiscountAction\<close>

record createDiscountInput =
  in_programId :: string
  in_partnerIds :: "string list option"
  in_amount :: int
  in_type :: string
  in_maxDuration :: "int option"
  in_couponId :: "string option"
  in_couponTestId :: "string option"

text \<open>
  The block \<^verbatim>\<open>let isDefault = true; if (partnerIds) { ... isDefault = false; }\<close> of the
  action: the value of \<open>isDefault\<close> after it, or the error it throws. An array is a truthy
  value also when it is empty, so only an absent \<open>partnerIds\<close> skips the block.
\<close>

definition checkPartnerIds :: "string \<Rightarrow> string list option \<Rightarrow> db \<Rightarrow> error + bool" where
  "checkPartnerIds programId partnerIds s =
     (case partnerIds of
        None \<Rightarrow> Inr True
      | Some ids \<Rightarrow>
          (let programEnrollments =
                 programEnrollment_findMany
                   (\<lambda>pe. pe_programId pe = programId \<and> pe_partnerId pe \<in> set ids) s
           in if length programEnrollments \<noteq> length ids
              then Inl (Error ''Invalid partner IDs provided.'')
              else
                (let partnersWithDiscounts =
                       filter (\<lambda>pe. truthy (pe_discountId pe)) programEnrollments
                 in if length partnersWithDiscounts > 0
                    then Inl (Error ''Partners cannot belong to more than one discount.'')
                    else Inr False)))"

text \<open>
  The action. \<open>newId\<close> is the value \<^verbatim>\<open>createId({ prefix: "disc_" })\<close> returns. The result
  is the error thrown or the normal return, with the store as the action leaves it.
\<close>

definition createDiscountAction ::
  "ctx \<Rightarrow> createDiscountInput \<Rightarrow> string \<Rightarrow> db \<Rightarrow> (error + unit) \<times> db" where
  "createDiscountAction c parsedInput newId s =
     (let programId = in_programId parsedInput;
          partnerIds = in_partnerIds parsedInput
      in case getProgramOrThrow (ws_id (ctx_workspace c)) programId s of
           Inl e \<Rightarrow> (Inl e, s)
         | Inr program \<Rightarrow>
             (case checkPartnerIds programId partnerIds s of
                Inl e \<Rightarrow> (Inl e, s)
              | Inr isDefault \<Rightarrow>
                  if truthy (p_defaultDiscountId program) \<and> isDefault
                  then (Inl (Error ''A program can have only one default discount.''), s)
                  else
                    (case discount_create
                            \<lparr>d_id = newId, d_programId = programId,
                             d_amount = in_amount parsedInput, d_type = in_type parsedInput,
                             d_maxDuration = in_maxDuration parsedInput,
                             d_couponId = in_couponId parsedInput,
                             d_couponTestId = in_couponTestId parsedInput\<rparr> s of
                       (Inl e, s1) \<Rightarrow> (Inl e, s1)
                     | (Inr discount, s1) \<Rightarrow>
                         (let s2 =
                                (case partnerIds of
                                   None \<Rightarrow> s1
                                 | Some ids \<Rightarrow>
                                     if length ids > 0
                                     then programEnrollment_updateMany
                                            (\<lambda>pe. pe_programId pe = programId \<and>
                                                  pe_partnerId pe \<in> set ids)
                                            (d_id discount) s1
                                     else s1)
                          in case (if isDefault
                                   then program_update programId (d_id discount) s2
                                   else (Inr (), s2)) of
                               (Inl e, s3) \<Rightarrow> (Inl e, s3)
                             | (Inr u, s3) \<Rightarrow>
                                 (Inr (),
                                  recordAuditLog
                                    \<lparr>al_action = ''discount.create'',
                                     al_workspace_id = ws_id (ctx_workspace c),
                                     al_program_id = programId,
                                     al_actor_id = u_id (ctx_user c),
                                     al_actor_name = u_name (ctx_user c),
                                     al_targets = [(d_id discount, ''discount'')],
                                     al_description = ''A new discount was created.''\<rparr>
                                    s3)))))"

section \<open>Route handlers\<close>

text \<open>
  \<^verbatim>\<open>a === b\<close> for a value that is a string or \<^verbatim>\<open>undefined\<close> (left, \<open>None\<close> is
  \<^verbatim>\<open>undefined\<close>) and one that is a string or \<^verbatim>\<open>null\<close> (right, \<open>None\<close> is
  \<^verbatim>\<open>null\<close>): \<^verbatim>\<open>undefined\<close> and \<^verbatim>\<open>null\<close> are not strictly equal.
\<close>

definition strict_eq :: "string option \<Rightarrow> string option \<Rightarrow> bool" where
  "strict_eq a b = (case (a, b) of (Some x, Some y) \<Rightarrow> x = y | _ \<Rightarrow> False)"

text \<open>
  A field of a \<^verbatim>\<open>where\<close> object: \<^verbatim>\<open>undefined\<close> (\<open>None\<close>) puts no constraint, a value
  constrains the column to equal it. \<open>where_eq_nullable\<close> is the same on a nullable column.
\<close>

definition where_eq :: "'a option \<Rightarrow> 'a \<Rightarrow> bool" where
  "where_eq f col = (case f of None \<Rightarrow> True | Some v \<Rightarrow> col = v)"

definition where_eq_nullable :: "'a option \<Rightarrow> 'a option \<Rightarrow> bool" where
  "where_eq_nullable f col = (case f of None \<Rightarrow> True | Some v \<Rightarrow> col = Some v)"

datatype sortOrder = asc | desc

text \<open>
  \<^verbatim>\<open>orderBy: { [sortBy]: sortOrder }\<close>: the rows sorted on one column. The store chooses
  the order of rows with equal keys; here they keep the order of the table, in both
  directions.
\<close>

fun orderBy :: "('r \<Rightarrow> 'k::linorder) \<Rightarrow> sortOrder \<Rightarrow> 'r list \<Rightarrow> 'r list" where
  "orderBy key asc rows = sort_key key rows"
| "orderBy key desc rows = rev (sort_key key (rev rows))"

subsection \<open>GET /api/commissions\<close>

text \<open>
  The parsed query. The schema \<^verbatim>\<open>getCommissionsQuerySchema\<close> is not among the sources:
  the handler takes its \<^verbatim>\<open>parse\<close> as a parameter. \<open>q_sortBy\<close> is the column that the
  field name \<open>sortBy\<close> selects; \<open>page\<close> and \<open>pageSize\<close> are natural numbers.
\<close>

record 'k commissionsQuery =
  q_status :: "string option"
  q_type :: "string option"
  q_customerId :: "string option"
  q_payoutId :: "string option"
  q_partnerId :: "string option"
  q_page :: nat
  q_pageSize :: nat
  q_sortBy :: "commission \<Rightarrow> 'k"
  q_sortOrder :: sortOrder
  q_start :: "int option"
  q_end :: "int option"
  q_interval :: "string option"

text \<open>A commission with \<^verbatim>\<open>include: { customer: true, partner: true }\<close>.\<close>

record commissionWithRelations =
  cr_commission :: commission
  cr_customer :: "customer option"
  cr_partner :: "partner option"

definition include_customer_partner :: "db \<Rightarrow> commission \<Rightarrow> commissionWithRelations" where
  "include_customer_partner s c =
     \<lparr>cr_commission = c,
      cr_customer = find (\<lambda>cu. cu_id cu = c_customerId c) (customers s),
      cr_partner = find (\<lambda>p. pt_id p = c_partnerId c) (partners s)\<rparr>"

text \<open>
  \<^verbatim>\<open>prisma.commission.findMany({where, include, skip, take, orderBy})\<close>: filter, sort, skip,
  take, then load the relations. The store rejects a negative \<^verbatim>\<open>skip\<close>.
\<close>

definition commission_findMany ::
  "(commission \<Rightarrow> bool) \<Rightarrow> int \<Rightarrow> nat \<Rightarrow> (commission \<Rightarrow> 'k::linorder) \<Rightarrow> sortOrder \<Rightarrow> db
     \<Rightarrow> error + commissionWithRelations list" where
  "commission_findMany wh skip tk key ord s =
     (if skip < 0 then Inl (PrismaClientUnknownRequestError ''skip'')
      else Inr (map (include_customer_partner s)
                  (take tk (drop (nat skip) (orderBy key ord (filter wh (commissions s)))))))"

text \<open>
  The handler. \<open>parseQuery\<close> is \<^verbatim>\<open>getCommissionsQuerySchema.parse\<close> and
  \<open>getStartEndDates\<close> the helper of that name (lib/analytics/utils/get-start-end-dates),
  neither among the sources; dates are milliseconds since the epoch. The value is the list
  that \<^verbatim>\<open>findMany\<close> returns, before the response schema serialises it.
\<close>

definition GET_commissions ::
  "((string \<rightharpoonup> string) \<Rightarrow> error + ('k::linorder) commissionsQuery)
     \<Rightarrow> (string option \<Rightarrow> int option \<Rightarrow> int option \<Rightarrow> int \<times> int)
     \<Rightarrow> workspace \<Rightarrow> (string \<rightharpoonup> string) \<Rightarrow> db
     \<Rightarrow> (error + commissionWithRelations list) \<times> db" where
  "GET_commissions parseQuery getStartEndDates workspace searchParams s =
     (let programId = searchParams ''programId''
      in if \<not> strict_eq programId (ws_defaultProgramId workspace)
         then (Inl (DubApiError ''not_found'' ''Program not found''), s)
         else
           (case parseQuery searchParams of
              Inl e \<Rightarrow> (Inl e, s)
            | Inr q \<Rightarrow>
                (case getStartEndDates (q_interval q) (q_start q) (q_end q) of
                   (startDate, endDate) \<Rightarrow>
                     (commission_findMany
                        (\<lambda>c. c_earnings c > 0 \<and>
                             where_eq programId (c_programId c) \<and>
                             where_eq (q_partnerId q) (c_partnerId c) \<and>
                             where_eq (q_status q) (c_status c) \<and>
                             where_eq (q_type q) (c_type c) \<and>
                             where_eq (q_customerId q) (c_customerId c) \<and>
                             where_eq_nullable (q_payoutId q) (c_payoutId c) \<and>
                             c_createdAt c \<ge> startDate \<and> c_createdAt c \<le> endDate)
                        ((int (q_page q) - 1) * int (q_pageSize q)) (q_pageSize q)
                        (q_sortBy q) (q_sortOrder q) s,
                      s))))"

subsection \<open>GET /api/programs/[programId]/discounts/partners\<close>

record partnerSummary =
  ps_id :: string
  ps_name :: string
  ps_image :: "string option"
  ps_email :: "string option"

text \<open>\<^verbatim>\<open>select: { partner: { select: { id, name, image, email } } }\<close> on an enrollment:
  the row of the partner relation, cut to the four fields.\<close>

definition select_partner :: "db \<Rightarrow> programEnrollment \<Rightarrow> partnerSummary option" where
  "select_partner s pe =
     map_option
       (\<lambda>p. \<lparr>ps_id = pt_id p, ps_name = pt_name p, ps_image = pt_image p,
             ps_email = pt_email p\<rparr>)
       (find (\<lambda>p. pt_id p = pe_partnerId pe) (partners s))"

text \<open>
  The handler. \<open>parseQuery\<close> is \<^verbatim>\<open>discountPartnersQuerySchema.parse\<close>, not among the
  sources, which yields the \<open>discountId\<close>; \<open>programId\<close> is the route parameter.
\<close>

definition GET_discount_partners ::
  "((string \<rightharpoonup> string) \<Rightarrow> error + string) \<Rightarrow> workspace \<Rightarrow> string \<Rightarrow> (string \<rightharpoonup> string) \<Rightarrow> db
     \<Rightarrow> (error + partnerSummary option list) \<times> db" where
  "GET_discount_partners parseQuery workspace programId searchParams s =
     (if \<not> strict_eq (Some programId) (ws_defaultProgramId workspace)
      then (Inl (DubApiError ''not_found'' ''Program not found''), s)
      else
        (case parseQuery searchParams of
           Inl e \<Rightarrow> (Inl e, s)
         | Inr discountId \<Rightarrow>
             (case getDiscountOrThrow programId discountId s of
                Inl e \<Rightarrow> (Inl e, s)
              | Inr d \<Rightarrow>
                  (let partners =
                         programEnrollment_findMany
                           (\<lambda>pe. pe_discountId pe = Some discountId) s
                   in (Inr (map (select_partner s) partners), s)))))"

section \<open>The checkout.session.completed webhook\<close>

record checkoutSession =
  cs_mode :: string
  cs_client_reference_id :: "string option"
  cs_customer :: "string option"
  cs_subscription :: "string option"

record price =
  price_id :: string

record subscriptionItem =
  si_price :: price

record subscription =
  sub_items_data :: "subscriptionItem list"

record planLimits =
  l_clicks :: int
  l_links :: int
  l_payouts :: int
  l_domains :: int
  l_ai :: int
  l_tags :: int
  l_folders :: int
  l_users :: int
  l_api :: int

record plan =
  plan_name :: string
  plan_limits :: planLimits

record userRow =
  usr_id :: string
  usr_name :: "string option"
  usr_email :: "string option"
  usr_isMachine :: bool

record project =
  pr_id :: string
  pr_stripeId :: "string option"
  pr_billingCycleStart :: int
  pr_plan :: string
  pr_usageLimit :: int
  pr_linksLimit :: int
  pr_payoutsLimit :: int
  pr_domainsLimit :: int
  pr_aiLimit :: int
  pr_tagsLimit :: int
  pr_foldersLimit :: int
  pr_usersLimit :: int
  pr_paymentFailedAt :: "int option"
  pr_users :: "userRow list"

record restrictedToken =
  rt_projectId :: string
  rt_hashedKey :: string
  rt_rateLimit :: int

record defaultDomains =
  dd_projectId :: string
  dd_dublink :: bool

record invite =
  inv_email :: string
  inv_role :: string

datatype redisValue =
    RString string
  | RInvites "invite list"
  | RDomain string string

text \<open>What the handler sends out: log messages, console lines, emails, cache expiry.\<close>

datatype effect =
    Log string string
  | ConsoleLog string
  | ConsoleError string
  | SendEmail "string option" string
  | TokenCacheExpireMany "string list"

text \<open>
  \<open>effects\<close> is what the handler has sent out when it returns, in order; \<open>scheduled\<close>
  holds the jobs it has handed to the limiter, which runs them later and which the
  handler does not wait for.
\<close>

record world =
  projects :: "project list"
  restrictedTokens :: "restrictedToken list"
  defaultDomainsTable :: "defaultDomains list"
  redis :: "string \<rightharpoonup> redisValue"
  effects :: "effect list"
  scheduled :: "effect list"

text \<open>
  The functions the handler calls that are not among the sources, taken as parameters:
  \<^verbatim>\<open>stripe.subscriptions.retrieve\<close>, \<^verbatim>\<open>getPlanFromPriceId\<close>, \<^verbatim>\<open>inviteUser\<close> and
  \<^verbatim>\<open>claimDotLinkDomain\<close>.
\<close>

record deps =
  stripe_subscriptions_retrieve :: "string option \<Rightarrow> error + subscription"
  getPlanFromPriceId :: "string \<Rightarrow> plan option"
  inviteUser :: "invite \<Rightarrow> project \<Rightarrow> world \<Rightarrow> world"
  claimDotLinkDomain :: "string \<Rightarrow> string \<Rightarrow> project \<Rightarrow> world \<Rightarrow> (error + unit) \<times> world"

text \<open>
  Modelled from the spec: \<^verbatim>\<open>log\<close> of the utils package is not among the sources. The
  spec: the failure is logged and the handler exits without raising. The message and its
  type are appended to what the handler sends out.
\<close>

definition log :: "string \<Rightarrow> string \<Rightarrow> world \<Rightarrow> world" where
  "log message type w = w\<lparr>effects := effects w @ [Log message type]\<rparr>"

definition emit :: "effect \<Rightarrow> world \<Rightarrow> world" where
  "emit e w = w\<lparr>effects := effects w @ [e]\<rparr>"

text \<open>\<^verbatim>\<open>limiter.schedule(job)\<close>: the job is queued, not run.\<close>

definition limiter_schedule :: "effect \<Rightarrow> world \<Rightarrow> world" where
  "limiter_schedule job w = w\<lparr>scheduled := scheduled w @ [job]\<rparr>"

text \<open>\<^verbatim>\<open>String.prototype.toLowerCase\<close> on ASCII.\<close>

definition toLowerCase :: "string \<Rightarrow> string" where
  "toLowerCase str =
     map (\<lambda>ch. let n = (of_char ch :: nat)
               in if 65 \<le> n \<and> n \<le> 90 then char_of (n + 32) else ch) str"

text \<open>\<^verbatim>\<open>prisma.project.update({where: {id}, data})\<close>: the updated row, or a rejection when
  no row has the key.\<close>

definition project_update ::
  "string \<Rightarrow> (project \<Rightarrow> project) \<Rightarrow> world \<Rightarrow> (error + project) \<times> world" where
  "project_update workspaceId f w =
     (case find (\<lambda>p. pr_id p = workspaceId) (projects w) of
        None \<Rightarrow> (Inl (PrismaClientKnownRequestError ''P2025''), w)
      | Some p \<Rightarrow>
          (Inr (f p),
           w\<lparr>projects := map (\<lambda>q. if pr_id q = workspaceId then f q else q) (projects w)\<rparr>))"

text \<open>
  \<open>completeOnboarding\<close>: the three groups of \<^verbatim>\<open>Promise.allSettled\<close> in the order they are
  listed; a rejected \<open>inviteUser\<close> is settled inside the parameter.
\<close>

definition completeOnboarding :: "deps \<Rightarrow> string list \<Rightarrow> string \<Rightarrow> world \<Rightarrow> world" where
  "completeOnboarding dp userIds workspaceId w =
     (case find (\<lambda>p. pr_id p = workspaceId) (projects w) of
        None \<Rightarrow> emit (ConsoleError ''Failed to complete onboarding for workspace'') w
      | Some workspace \<Rightarrow>
          (let w1 = fold (\<lambda>uid v. v\<lparr>redis := (redis v)(''onboarding-step:'' @ uid \<mapsto>
                                                  RString ''completed'')\<rparr>) userIds w;
               w2 = (case redis w1 (''invites:'' @ workspaceId) of
                       Some (RInvites invites) \<Rightarrow>
                         if invites = [] then w1
                         else (let v = fold (\<lambda>i v. inviteUser dp i workspace v) invites w1
                               in v\<lparr>redis := (redis v)(''invites:'' @ workspaceId := None)\<rparr>)
                     | _ \<Rightarrow> w1)
           in case redis w2 (''onboarding-domain:'' @ workspaceId) of
                Some (RDomain domain userId) \<Rightarrow>
                  if domain = [] \<or> userId = [] then w2
                  else
                    (case claimDotLinkDomain dp domain userId workspace w2 of
                       (Inl e, v) \<Rightarrow>
                         emit (ConsoleError ''Failed to register saved domain from onboarding'') v
                     | (Inr u, v) \<Rightarrow>
                         v\<lparr>redis := (redis v)(''onboarding-domain:'' @ workspaceId := None)\<rparr>)
              | _ \<Rightarrow> w2))"

text \<open>
  The handler; \<open>today\<close> is \<^verbatim>\<open>new Date().getDate()\<close>. The steps of the final
  \<^verbatim>\<open>Promise.allSettled\<close> are started in the order they are listed, and a rejected step
  changes nothing. The callback of \<^verbatim>\<open>users.map\<close> returns nothing: each upgrade email is
  only scheduled on the limiter.
\<close>

definition checkoutSessionCompleted ::
  "deps \<Rightarrow> int \<Rightarrow> checkoutSession \<Rightarrow> world \<Rightarrow> (error + unit) \<times> world" where
  "checkoutSessionCompleted dp today checkoutSession w =
     (if cs_mode checkoutSession = ''setup'' then (Inr (), w)
      else
        (case (cs_client_reference_id checkoutSession, cs_customer checkoutSession) of
           (Some workspaceId, Some stripeId) \<Rightarrow>
             (case stripe_subscriptions_retrieve dp (cs_subscription checkoutSession) of
                Inl e \<Rightarrow> (Inl e, w)
              | Inr subscription \<Rightarrow>
                  (case sub_items_data subscription of
                     [] \<Rightarrow> (Inl (TypeError ''Cannot read properties of undefined''), w)
                   | item # rest \<Rightarrow>
                       (let priceId = price_id (si_price item)
                        in case getPlanFromPriceId dp priceId of
                             None \<Rightarrow>
                               (Inr (),
                                emit (ConsoleLog
                                        (''Invalid price ID in checkout.session.completed event: ''
                                           @ priceId)) w)
                           | Some plan \<Rightarrow>
                               (case project_update workspaceId
                                       (\<lambda>p. p\<lparr>pr_stripeId := Some stripeId,
                                              pr_billingCycleStart := today,
                                              pr_plan := toLowerCase (plan_name plan),
                                              pr_usageLimit := l_clicks (plan_limits plan),
                                              pr_linksLimit := l_links (plan_limits plan),
                                              pr_payoutsLimit := l_payouts (plan_limits plan),
                                              pr_domainsLimit := l_domains (plan_limits plan),
                                              pr_aiLimit := l_ai (plan_limits plan),
                                              pr_tagsLimit := l_tags (plan_limits plan),
                                              pr_foldersLimit := l_folders (plan_limits plan),
                                              pr_usersLimit := l_users (plan_limits plan),
                                              pr_paymentFailedAt := None\<rparr>) w of
                                  (Inl e, w1) \<Rightarrow> (Inl e, w1)
                                | (Inr workspace, w1) \<Rightarrow>
                                    (let users = filter (\<lambda>u. \<not> usr_isMachine u)
                                                   (pr_users workspace);
                                         hashedKeys =
                                           map rt_hashedKey
                                             (filter (\<lambda>t. rt_projectId t = workspaceId)
                                                (restrictedTokens w1));
                                         w2 = completeOnboarding dp (map usr_id users)
                                                workspaceId w1;
                                         w3 = fold (\<lambda>u v. limiter_schedule
                                                  (SendEmail (usr_email u)
                                                     (''Thank you for upgrading to Dub ''
                                                        @ plan_name plan @ ''!'')) v)
                                                users w2;
                                         w4 = w3\<lparr>restrictedTokens :=
                                                   map (\<lambda>t. if rt_projectId t = workspaceId
                                                             then t\<lparr>rt_rateLimit :=
                                                                      l_api (plan_limits plan)\<rparr>
                                                             else t)
                                                     (restrictedTokens w3)\<rparr>;
                                         w5 = w4\<lparr>defaultDomainsTable :=
                                                   map (\<lambda>d. if dd_projectId d = workspaceId
                                                             then d\<lparr>dd_dublink := True\<rparr>
                                                             else d)
                                                     (defaultDomainsTable w4)\<rparr>
                                     in (Inr (), emit (TokenCacheExpireMany hashedKeys) w5))))))
         | _ \<Rightarrow>
             (Inr (), log ''Missing items in Stripe webhook callback'' ''errors'' w)))"

section \<open>A program with three enrolled partners\<close>

text \<open>
  The store of the examples: program \<open>prog_1\<close> of workspace \<open>ws_1\<close> has the default
  discount \<open>disc_0\<close> and the partners \<open>pa\<close>, \<open>pb\<close> (no discount) and \<open>pc\<close> (on
  \<open>disc_c\<close>) and \<open>pd\<close> (on \<open>disc_c\<close>, enrolled last); program \<open>prog_2\<close> has no
  default discount and enrolls \<open>pa\<close>. Of the six commissions, \<open>cm_2\<close> has earnings
  zero, \<open>cm_6\<close> negative earnings and \<open>cm_5\<close> is of \<open>prog_2\<close>.
\<close>

definition mk_commission ::
  "string \<Rightarrow> string \<Rightarrow> string \<Rightarrow> string \<Rightarrow> int \<Rightarrow> int \<Rightarrow> commission" where
  "mk_commission i prog part st earn created =
     \<lparr>c_id = i, c_programId = prog, c_partnerId = part, c_customerId = ''cus_1'',
      c_payoutId = None, c_status = st, c_type = ''sale'', c_amount = 100,
      c_earnings = earn, c_createdAt = created\<rparr>"

definition cm_1 :: commission where
  "cm_1 = mk_commission ''cm_1'' ''prog_1'' ''pa'' ''pending'' 30 100"

definition cm_2 :: commission where
  "cm_2 = mk_commission ''cm_2'' ''prog_1'' ''pa'' ''pending'' 0 200"

definition cm_3 :: commission where
  "cm_3 = mk_commission ''cm_3'' ''prog_1'' ''pb'' ''paid'' 20 300"

definition cm_4 :: commission where
  "cm_4 = mk_commission ''cm_4'' ''prog_1'' ''pb'' ''pending'' 5 400"

definition cm_5 :: commission where
  "cm_5 = mk_commission ''cm_5'' ''prog_2'' ''pa'' ''pending'' 10 250"

definition cm_6 :: commission where
  "cm_6 = mk_commission ''cm_6'' ''prog_1'' ''pa'' ''pending'' (- 5) 350"

definition scenario_db :: db where
  "scenario_db =
     \<lparr>programs =
        [\<lparr>p_id = ''prog_1'', p_workspaceId = ''ws_1'', p_defaultDiscountId = Some ''disc_0''\<rparr>,
         \<lparr>p_id = ''prog_2'', p_workspaceId = ''ws_1'', p_defaultDiscountId = None\<rparr>],
      discounts =
        [\<lparr>d_id = ''disc_0'', d_programId = ''prog_1'', d_amount = 10, d_type = ''percentage'',
          d_maxDuration = None, d_couponId = None, d_couponTestId = None\<rparr>,
         \<lparr>d_id = ''disc_c'', d_programId = ''prog_1'', d_amount = 5, d_type = ''fixed'',
          d_maxDuration = Some 12, d_couponId = None, d_couponTestId = None\<rparr>],
      programEnrollments =
        [\<lparr>pe_id = ''pe_a'', pe_programId = ''prog_1'', pe_partnerId = ''pa'', pe_discountId = None\<rparr>,
         \<lparr>pe_id = ''pe_b'', pe_programId = ''prog_1'', pe_partnerId = ''pb'', pe_discountId = None\<rparr>,
         \<lparr>pe_id = ''pe_c'', pe_programId = ''prog_1'', pe_partnerId = ''pc'',
          pe_discountId = Some ''disc_c''\<rparr>,
         \<lparr>pe_id = ''pe_x'', pe_programId = ''prog_2'', pe_partnerId = ''pa'', pe_discountId = None\<rparr>,
         \<lparr>pe_id = ''pe_d'', pe_programId = ''prog_1'', pe_partnerId = ''pd'',
          pe_discountId = Some ''disc_c''\<rparr>],
      partners =
        [\<lparr>pt_id = ''pa'', pt_name = ''Ann'', pt_image = None, pt_email = Some ''ann@example.com'',
          pt_country = Some ''US''\<rparr>,
         \<lparr>pt_id = ''pb'', pt_name = ''Bob'', pt_image = None, pt_email = None,
          pt_country = None\<rparr>,
         \<lparr>pt_id = ''pd'', pt_name = ''Dan'', pt_image = Some ''dan.png'', pt_email = None,
          pt_country = None\<rparr>,
         \<lparr>pt_id = ''pc'', pt_name = ''Cy'', pt_image = None, pt_email = Some ''cy@example.com'',
          pt_country = Some ''FR''\<rparr>],
      customers = [\<lparr>cu_id = ''cus_1'', cu_name = ''Acme''\<rparr>],
      commissions = [cm_1, cm_2, cm_3, cm_4, cm_5, cm_6],
      auditLogs = [],
      readOrder = (\<lambda>rows. rows)\<rparr>"

definition scenario_ctx :: ctx where
  "scenario_ctx =
     \<lparr>ctx_workspace = \<lparr>ws_id = ''ws_1'', ws_defaultProgramId = Some ''prog_1''\<rparr>,
      ctx_user = \<lparr>u_id = ''user_1'', u_name = ''Ada''\<rparr>\<rparr>"

definition scenario_input :: "string \<Rightarrow> string list option \<Rightarrow> createDiscountInput" where
  "scenario_input pid ids =
     \<lparr>in_programId = pid, in_partnerIds = ids, in_amount = 20, in_type = ''percentage'',
      in_maxDuration = None, in_couponId = None, in_couponTestId = None\<rparr>"

text \<open>
  The same store with another enrollment table, returned in the order of the primary key:
  the enrollment of \<open>pc\<close> was inserted before that of \<open>pd\<close>, but its key \<open>pe_7k\<close>
  comes after \<open>pe_2m\<close>.
\<close>

definition keyed_db :: db where
  "keyed_db =
     scenario_db
       \<lparr>programEnrollments :=
          [\<lparr>pe_id = ''pe_7k'', pe_programId = ''prog_1'', pe_partnerId = ''pc'',
            pe_discountId = Some ''disc_c''\<rparr>,
           \<lparr>pe_id = ''pe_2m'', pe_programId = ''prog_1'', pe_partnerId = ''pd'',
            pe_discountId = Some ''disc_c''\<rparr>,
           \<lparr>pe_id = ''pe_5c'', pe_programId = ''prog_1'', pe_partnerId = ''pa'',
            pe_discountId = None\<rparr>],
        readOrder := sort_key pe_id\<rparr>"

text \<open>
  A query parser for the examples: the filters are read from the parameters, the page is
  the first of size two, newest first. The dates resolve to the interval from 0 to 1000.
\<close>

definition scenario_parse :: "(string \<rightharpoonup> string) \<Rightarrow> error + int commissionsQuery" where
  "scenario_parse sp =
     (if sp ''pageSize'' = Some ''0'' then Inl (ZodError ''pageSize'')
      else Inr \<lparr>q_status = sp ''status'', q_type = sp ''type'',
                q_customerId = sp ''customerId'', q_payoutId = sp ''payoutId'',
                q_partnerId = sp ''partnerId'', q_page = 1, q_pageSize = 2,
                q_sortBy = c_createdAt, q_sortOrder = desc,
                q_start = None, q_end = None, q_interval = sp ''interval''\<rparr>)"

definition scenario_dates :: "string option \<Rightarrow> int option \<Rightarrow> int option \<Rightarrow> int \<times> int" where
  "scenario_dates interval start end = (0, 1000)"

definition scenario_parse_discountId :: "(string \<rightharpoonup> string) \<Rightarrow> error + string" where
  "scenario_parse_discountId sp =
     (case sp ''discountId'' of None \<Rightarrow> Inl (ZodError ''discountId'') | Some d \<Rightarrow> Inr d)"

text \<open>
  The billing world of the examples: workspace \<open>ws_1\<close> on the free plan; subscription
  \<open>sub_1\<close> is on the known price \<open>price_pro\<close>, \<open>sub_2\<close> on a price of no plan.
\<close>

definition scenario_world :: world where
  "scenario_world =
     \<lparr>projects =
        [\<lparr>pr_id = ''ws_1'', pr_stripeId = None, pr_billingCycleStart = 1, pr_plan = ''free'',
          pr_usageLimit = 1000, pr_linksLimit = 25, pr_payoutsLimit = 0, pr_domainsLimit = 3,
          pr_aiLimit = 10, pr_tagsLimit = 5, pr_foldersLimit = 0, pr_usersLimit = 1,
          pr_paymentFailedAt = None,
          pr_users = [\<lparr>usr_id = ''user_1'', usr_name = Some ''Ada'',
                       usr_email = Some ''ada@example.com'', usr_isMachine = False\<rparr>]\<rparr>],
      restrictedTokens =
        [\<lparr>rt_projectId = ''ws_1'', rt_hashedKey = ''h1'', rt_rateLimit = 60\<rparr>],
      defaultDomainsTable = [\<lparr>dd_projectId = ''ws_1'', dd_dublink = False\<rparr>],
      redis = Map.empty,
      effects = [],
      scheduled = []\<rparr>"

definition scenario_deps :: deps where
  "scenario_deps =
     \<lparr>stripe_subscriptions_retrieve =
        (\<lambda>sub. if sub = Some ''sub_1''
                then Inr \<lparr>sub_items_data = [\<lparr>si_price = \<lparr>price_id = ''price_pro''\<rparr>\<rparr>]\<rparr>
                else if sub = Some ''sub_2''
                then Inr \<lparr>sub_items_data = [\<lparr>si_price = \<lparr>price_id = ''price_old''\<rparr>\<rparr>]\<rparr>
                else Inl (Error ''No such subscription'')),
      getPlanFromPriceId =
        (\<lambda>p. if p = ''price_pro''
              then Some \<lparr>plan_name = ''Pro'',
                         plan_limits = \<lparr>l_clicks = 50000, l_links = 1000, l_payouts = 0,
                                         l_domains = 10, l_ai = 1000, l_tags = 25,
                                         l_folders = 3, l_users = 5, l_api = 600\<rparr>\<rparr>
              else None),
      inviteUser = (\<lambda>i p w. w),
      claimDotLinkDomain = (\<lambda>d u p w. (Inr (), w))\<rparr>"

definition scenario_session :: "string \<Rightarrow> string option \<Rightarrow> string option \<Rightarrow> checkoutSession" where
  "scenario_session m ref sub =
     \<lparr>cs_mode = m, cs_client_reference_id = ref, cs_customer = Some ''cus_stripe_1'',
      cs_subscription = sub\<rparr>"

section \<open>Properties of createDiscountAction\<close>

lemmas scenario_defs = scenario_db_def scenario_ctx_def scenario_input_def
  cm_1_def cm_2_def cm_3_def cm_4_def cm_5_def cm_6_def mk_commission_def

lemmas createDiscount_defs =
  createDiscountAction_def getProgramOrThrow_def checkPartnerIds_def
  programEnrollment_findMany_def programEnrollment_updateMany_def program_update_def
  discount_create_def recordAuditLog_def truthy_def

lemma getProgramOrThrow_found:
  assumes "getProgramOrThrow w pid s = Inr p"
  shows "p \<in> set (programs s) \<and> p_id p = pid \<and> p_workspaceId p = w"
proof -
  from assms have "find (\<lambda>p. p_id p = pid \<and> p_workspaceId p = w) (programs s) = Some p"
    by (simp add: getProgramOrThrow_def split: option.splits)
  then obtain i where "i < length (programs s)" "programs s ! i = p"
      "p_id p = pid \<and> p_workspaceId p = w"
    by (auto simp: find_Some_iff)
  then show ?thesis by auto
qed

text \<open>The partner block with a supplied array, the filter of line 50 read as a test.\<close>

lemma checkPartnerIds_Some:
  "checkPartnerIds pid (Some ids) s =
     (let rows = programEnrollment_findMany
                   (\<lambda>pe. pe_programId pe = pid \<and> pe_partnerId pe \<in> set ids) s
      in if length rows \<noteq> length ids then Inl (Error ''Invalid partner IDs provided.'')
         else if \<exists>pe \<in> set rows. truthy (pe_discountId pe)
              then Inl (Error ''Partners cannot belong to more than one discount.'')
              else Inr False)"
  by (auto simp: checkPartnerIds_def Let_def filter_empty_conv)

text \<open>
  With \<open>partnerIds\<close> absent the action is the default path of the spec: Conflict when the
  program has a default discount, otherwise the new discount becomes the default.
\<close>

lemma createDiscount_absent_partnerIds:
  assumes "getProgramOrThrow (ws_id (ctx_workspace c)) (in_programId inp) s = Inr program"
      and "in_partnerIds inp = None"
  shows "(truthy (p_defaultDiscountId program) \<longrightarrow>
            createDiscountAction c inp newId s =
              (Inl (Error ''A program can have only one default discount.''), s))
       \<and> (\<not> truthy (p_defaultDiscountId program) \<and> newId \<notin> set (map d_id (discounts s)) \<longrightarrow>
            fst (createDiscountAction c inp newId s) = Inr () \<and>
            programs (snd (createDiscountAction c inp newId s)) =
              map (\<lambda>p. if p_id p = in_programId inp
                        then p\<lparr>p_defaultDiscountId := Some newId\<rparr> else p)
                (programs s))"
proof -
  have "in_programId inp \<in> set (map p_id (programs s))"
    using getProgramOrThrow_found[OF assms(1)] by force
  then show ?thesis
    using assms
    by (simp add: createDiscountAction_def checkPartnerIds_def discount_create_def
        program_update_def recordAuditLog_def Let_def)
qed

text \<open>
  Claim C1. A call whose \<open>partnerIds\<close> is absent or empty fails with Conflict when the
  program's \<open>defaultDiscountId\<close> is set, and otherwise succeeds, inserts the discount and
  sets \<open>defaultDiscountId\<close> to the new ID. The action does so for an absent
  \<open>partnerIds\<close> only. Here \<open>partnerIds\<close> is the empty array and \<open>prog_1\<close> has the
  default discount \<open>disc_0\<close>: the test \<^verbatim>\<open>if (partnerIds)\<close> of line 32 takes the empty
  array as supplied and clears \<open>isDefault\<close>, where line 77 tests
  \<^verbatim>\<open>partnerIds && partnerIds.length > 0\<close>. The call returns normally, the discount
  \<open>disc_1\<close> is inserted, and the program still points to \<open>disc_0\<close>.
\<close>

theorem createDiscount_empty_partnerIds_no_conflict:
  "createDiscountAction scenario_ctx (scenario_input ''prog_1'' (Some [])) ''disc_1'' scenario_db
     = (Inr (),
        scenario_db
          \<lparr>discounts := discounts scenario_db @
             [\<lparr>d_id = ''disc_1'', d_programId = ''prog_1'', d_amount = 20,
               d_type = ''percentage'', d_maxDuration = None, d_couponId = None,
               d_couponTestId = None\<rparr>],
           auditLogs :=
             [\<lparr>al_action = ''discount.create'', al_workspace_id = ''ws_1'',
               al_program_id = ''prog_1'', al_actor_id = ''user_1'', al_actor_name = ''Ada'',
               al_targets = [(''disc_1'', ''discount'')],
               al_description = ''A new discount was created.''\<rparr>]\<rparr>)"
  by (simp add: createDiscount_defs scenario_defs Let_def)

text \<open>
  Claim C2. With a supplied non-empty \<open>partnerIds\<close> on a resolved program, the action
  fails with \<open>Invalid partner IDs provided.\<close> (InvalidInput) when the number of enrollment
  rows loaded for the program and the partner IDs differs from the length of
  \<open>partnerIds\<close>, and otherwise with \<open>Partners cannot belong to more than one discount.\<close>
  (Conflict) when a loaded row has a non-null \<open>discountId\<close>; the store is as before. The
  source tests \<open>discountId\<close> for truth, which is the test for non-null when no loaded
  row has the empty string as its discount reference.
\<close>

theorem createDiscount_partner_validation_order:
  assumes "getProgramOrThrow (ws_id (ctx_workspace c)) (in_programId inp) s = Inr program"
      and "in_partnerIds inp = Some ids" and "ids \<noteq> []"
      and "rows = programEnrollment_findMany
                    (\<lambda>pe. pe_programId pe = in_programId inp \<and> pe_partnerId pe \<in> set ids) s"
      and "\<forall>pe \<in> set rows. pe_discountId pe \<noteq> Some []"
  shows "(length rows \<noteq> length ids \<longrightarrow>
            createDiscountAction c inp newId s =
              (Inl (Error ''Invalid partner IDs provided.''), s))
       \<and> (length rows = length ids \<and> (\<exists>pe \<in> set rows. pe_discountId pe \<noteq> None) \<longrightarrow>
            createDiscountAction c inp newId s =
              (Inl (Error ''Partners cannot belong to more than one discount.''), s))"
proof -
  have t: "\<And>pe. pe \<in> set rows \<Longrightarrow> truthy (pe_discountId pe) = (pe_discountId pe \<noteq> None)"
    using assms(5)
    by (auto simp: truthy_def split: option.splits)
  show ?thesis
    using assms(1,2,4) t
    by (auto simp: createDiscountAction_def checkPartnerIds_Some Let_def)
qed

theorem createDiscount_partner_validation_order_witness:
  "createDiscountAction scenario_ctx (scenario_input ''prog_1'' (Some [''pa'', ''pz'']))
       ''disc_1'' scenario_db
     = (Inl (Error ''Invalid partner IDs provided.''), scenario_db)
   \<and> createDiscountAction scenario_ctx (scenario_input ''prog_1'' (Some [''pa'', ''pc'']))
       ''disc_1'' scenario_db
     = (Inl (Error ''Partners cannot belong to more than one discount.''), scenario_db)"
  using createDiscount_partner_validation_order
          [of scenario_ctx "scenario_input ''prog_1'' (Some [''pa'', ''pz''])" scenario_db
              "hd (programs scenario_db)" "[''pa'', ''pz'']" _ "''disc_1''", OF _ _ _ refl]
        createDiscount_partner_validation_order
          [of scenario_ctx "scenario_input ''prog_1'' (Some [''pa'', ''pc''])" scenario_db
              "hd (programs scenario_db)" "[''pa'', ''pc'']" _ "''disc_1''", OF _ _ _ refl]
  by (simp add: scenario_defs getProgramOrThrow_def programEnrollment_findMany_def)

text \<open>
  Claim C3. When the action fails validation (NotFound on program resolution, the
  InvalidInput error on partner IDs, or one of the two Conflict errors), the store it
  leaves is the store it was given: no discount row is inserted, no enrollment and no
  program is changed.
\<close>

theorem createDiscount_validation_failure_no_mutation:
  assumes "createDiscountAction c inp newId s = (Inl e, s')"
      and "(\<exists>m. e = DubApiError ''not_found'' m)
           \<or> e = Error ''Invalid partner IDs provided.''
           \<or> e = Error ''Partners cannot belong to more than one discount.''
           \<or> e = Error ''A program can have only one default discount.''"
  shows "s' = s"
  using assms
  by (auto simp: createDiscountAction_def discount_create_def program_update_def Let_def
        split: sum.splits if_splits option.splits prod.splits)

theorem createDiscount_validation_failure_no_mutation_witness:
  "createDiscountAction scenario_ctx (scenario_input ''prog_1'' (Some [''pa'', ''pz'']))
       ''disc_1'' scenario_db
     = (Inl (Error ''Invalid partner IDs provided.''), scenario_db)"
proof -
  have "createDiscountAction scenario_ctx (scenario_input ''prog_1'' (Some [''pa'', ''pz'']))
          ''disc_1'' scenario_db
        = (Inl (Error ''Invalid partner IDs provided.''),
           snd (createDiscountAction scenario_ctx
                  (scenario_input ''prog_1'' (Some [''pa'', ''pz''])) ''disc_1'' scenario_db))"
    by (simp add: createDiscount_defs scenario_defs Let_def)
  from createDiscount_validation_failure_no_mutation [OF this] show ?thesis
    by (simp add: createDiscount_defs scenario_defs Let_def)
qed

text \<open>
  Claim C4. With \<open>partnerIds\<close> the empty array, on a resolved program and with a fresh
  ID (no discount has it, no row refers to it), the action succeeds and inserts the
  discount row, and it changes neither a program (the default pointer included, also when
  the program has a default discount already) nor an enrollment: no program and no
  enrollment references the new discount.
\<close>

theorem createDiscount_empty_partnerIds_orphan:
  assumes "getProgramOrThrow (ws_id (ctx_workspace c)) (in_programId inp) s = Inr program"
      and "in_partnerIds inp = Some []"
      and "newId \<notin> set (map d_id (discounts s))"
      and "\<forall>p \<in> set (programs s). p_defaultDiscountId p \<noteq> Some newId"
      and "\<forall>pe \<in> set (programEnrollments s). pe_discountId pe \<noteq> Some newId"
      and "s' = snd (createDiscountAction c inp newId s)"
  shows "fst (createDiscountAction c inp newId s) = Inr ()
       \<and> discounts s' = discounts s @
             [\<lparr>d_id = newId, d_programId = in_programId inp, d_amount = in_amount inp,
               d_type = in_type inp, d_maxDuration = in_maxDuration inp,
               d_couponId = in_couponId inp, d_couponTestId = in_couponTestId inp\<rparr>]
       \<and> programs s' = programs s
       \<and> programEnrollments s' = programEnrollments s
       \<and> (\<forall>p \<in> set (programs s'). p_defaultDiscountId p \<noteq> Some newId)
       \<and> (\<forall>pe \<in> set (programEnrollments s'). pe_discountId pe \<noteq> Some newId)"
  using assms
  by (simp add: createDiscountAction_def checkPartnerIds_def programEnrollment_findMany_def
        discount_create_def recordAuditLog_def Let_def)

theorem createDiscount_empty_partnerIds_orphan_witness:
  "fst (createDiscountAction scenario_ctx (scenario_input ''prog_1'' (Some [])) ''disc_1''
          scenario_db) = Inr ()
   \<and> map d_id (discounts (snd (createDiscountAction scenario_ctx
         (scenario_input ''prog_1'' (Some [])) ''disc_1'' scenario_db)))
       = [''disc_0'', ''disc_c'', ''disc_1'']
   \<and> map p_defaultDiscountId (programs (snd (createDiscountAction scenario_ctx
         (scenario_input ''prog_1'' (Some [])) ''disc_1'' scenario_db)))
       = [Some ''disc_0'', None]
   \<and> map pe_discountId (programEnrollments (snd (createDiscountAction scenario_ctx
         (scenario_input ''prog_1'' (Some [])) ''disc_1'' scenario_db)))
       = [None, None, Some ''disc_c'', None, Some ''disc_c'']"
  using createDiscount_empty_partnerIds_orphan
          [of scenario_ctx "scenario_input ''prog_1'' (Some [])" scenario_db
              "hd (programs scenario_db)" "''disc_1''", OF _ _ _ _ _ refl]
  by (simp add: scenario_defs getProgramOrThrow_def)

text \<open>
  Claim C5. After a successful call with a non-empty \<open>partnerIds\<close>, every enrollment
  row of the program whose partner is in \<open>partnerIds\<close> has the new discount's ID as its
  \<open>discountId\<close>, every other enrollment row is as before, and so is every program, its
  \<open>defaultDiscountId\<close> included.
\<close>

theorem createDiscount_partner_scoped_effect:
  assumes "createDiscountAction c inp newId s = (Inr (), s')"
      and "in_partnerIds inp = Some ids" and "ids \<noteq> []"
  shows "programEnrollments s' =
           map (\<lambda>pe. if pe_programId pe = in_programId inp \<and> pe_partnerId pe \<in> set ids
                      then pe\<lparr>pe_discountId := Some newId\<rparr> else pe)
             (programEnrollments s)
       \<and> programs s' = programs s"
proof -
  have nd: "\<And>b. checkPartnerIds (in_programId inp) (Some ids) s = Inr b \<Longrightarrow> \<not> b"
    by (auto simp: checkPartnerIds_Some Let_def split: if_splits)
  show ?thesis
    using assms
    by (auto simp: createDiscountAction_def discount_create_def
          programEnrollment_updateMany_def recordAuditLog_def Let_def
          split: sum.splits if_splits dest: nd)
qed

theorem createDiscount_partner_scoped_effect_witness:
  "map pe_discountId (programEnrollments (snd (createDiscountAction scenario_ctx
       (scenario_input ''prog_1'' (Some [''pa'', ''pb''])) ''disc_1'' scenario_db)))
     = [Some ''disc_1'', Some ''disc_1'', Some ''disc_c'', None, Some ''disc_c'']
   \<and> programs (snd (createDiscountAction scenario_ctx
       (scenario_input ''prog_1'' (Some [''pa'', ''pb''])) ''disc_1'' scenario_db))
     = programs scenario_db"
proof -
  have "createDiscountAction scenario_ctx (scenario_input ''prog_1'' (Some [''pa'', ''pb'']))
          ''disc_1'' scenario_db
        = (Inr (), snd (createDiscountAction scenario_ctx
                          (scenario_input ''prog_1'' (Some [''pa'', ''pb''])) ''disc_1''
                          scenario_db))"
    by (simp add: createDiscount_defs scenario_defs Let_def)
  from createDiscount_partner_scoped_effect [OF this, of "[''pa'', ''pb'']"] show ?thesis
    by (simp add: scenario_defs)
qed

section \<open>Properties of the route handlers\<close>

lemma set_orderBy: "set (orderBy key ord rows) = set rows"
  by (cases ord) simp_all

lemma mset_orderBy: "mset (orderBy key ord rows) = mset rows"
  by (cases ord) simp_all

lemma sorted_orderBy:
  "sorted_wrt (\<lambda>a b. case ord of asc \<Rightarrow> key a \<le> key b | desc \<Rightarrow> key b \<le> key a)
     (orderBy key ord rows)"
proof (cases ord)
  case asc
  have "sorted (map key (sort_key key rows))" by (rule sorted_sort_key)
  then show ?thesis using asc by (simp add: sorted_map)
next
  case desc
  have "sorted (map key (sort_key key (rev rows)))" by (rule sorted_sort_key)
  then show ?thesis using desc by (simp add: sorted_map sorted_wrt_rev)
qed

lemma commission_findMany_mem:
  assumes "commission_findMany wh sk tk key ord s = Inr rows" and "r \<in> set rows"
  shows "cr_commission r \<in> set (commissions s) \<and> wh (cr_commission r)"
proof -
  from assms obtain c where
      c: "c \<in> set (take tk (drop (nat sk) (orderBy key ord (filter wh (commissions s)))))"
      and r: "r = include_customer_partner s c"
    by (auto simp: commission_findMany_def split: if_splits)
  from c have "c \<in> set (orderBy key ord (filter wh (commissions s)))"
    by (blast dest: in_set_takeD in_set_dropD)
  then have "c \<in> set (commissions s) \<and> wh c"
    by (simp add: set_orderBy)
  with r show ?thesis
    by (simp add: include_customer_partner_def)
qed

lemmas query_defs = GET_commissions_def commission_findMany_def include_customer_partner_def
  strict_eq_def where_eq_def where_eq_nullable_def scenario_parse_def scenario_dates_def

text \<open>
  Claim C6. Whatever the query and the store, every row that \<open>listCommissions\<close> returns
  is a commission of the store with earnings above zero: a commission whose earnings are
  zero or negative never appears in the results.
\<close>

theorem listCommissions_positive_earnings:
  assumes "GET_commissions parseQuery getStartEndDates workspace searchParams s = (Inr rows, s')"
      and "r \<in> set rows"
  shows "cr_commission r \<in> set (commissions s) \<and> 0 < c_earnings (cr_commission r)"
  using assms
  by (auto simp: GET_commissions_def Let_def split: if_splits sum.splits prod.splits
        dest!: commission_findMany_mem)

theorem listCommissions_positive_earnings_witness:
  "GET_commissions scenario_parse scenario_dates (ctx_workspace scenario_ctx)
     [''programId'' \<mapsto> ''prog_1'', ''partnerId'' \<mapsto> ''pa''] scenario_db
   = (Inr [include_customer_partner scenario_db cm_1], scenario_db)
   \<and> cm_1 \<in> set (commissions scenario_db)
   \<and> cm_2 \<in> set (commissions scenario_db) \<and> c_earnings cm_2 = 0
   \<and> 0 < c_earnings cm_1"
proof -
  have e: "GET_commissions scenario_parse scenario_dates (ctx_workspace scenario_ctx)
             [''programId'' \<mapsto> ''prog_1'', ''partnerId'' \<mapsto> ''pa''] scenario_db
           = (Inr [include_customer_partner scenario_db cm_1], scenario_db)"
    by (simp add: query_defs scenario_defs)
  have m: "include_customer_partner scenario_db cm_1
             \<in> set [include_customer_partner scenario_db cm_1]"
    by simp
  from listCommissions_positive_earnings [OF e m] e show ?thesis
    by (simp add: include_customer_partner_def scenario_defs)
qed

text \<open>
  Claim C7. For a request on the workspace's program, a parsed query and a page number
  of at least one, the result of \<open>listCommissions\<close> is a page of a list \<open>sorted\<close>:
  \<open>sorted\<close> holds exactly the commissions of the program with positive earnings (C6)
  whose supplied filters \<open>status\<close>, \<open>type\<close>, \<open>customerId\<close>, \<open>payoutId\<close> and
  \<open>partnerId\<close> match by equality and whose \<open>createdAt\<close> lies between \<open>startDate\<close> and
  \<open>endDate\<close>, both ends included; it is ordered on the \<open>sortBy\<close> column in the direction
  \<open>sortOrder\<close>; the page skips \<open>(page - 1) * pageSize\<close> rows and takes \<open>pageSize\<close>; each
  record of the page comes with its customer, the row of the customer table whose \<open>id\<close>
  is the commission's \<open>customerId\<close>, and with its partner, the row of the partner table
  whose \<open>id\<close> is the commission's \<open>partnerId\<close>.
\<close>

theorem listCommissions_filter_order_page:
  assumes "strict_eq (searchParams ''programId'') (ws_defaultProgramId workspace)"
      and "parseQuery searchParams = Inr q"
      and "getStartEndDates (q_interval q) (q_start q) (q_end q) = (startDate, endDate)"
      and "1 \<le> q_page q"
  shows "\<exists>sorted.
           mset sorted =
             mset (filter
                    (\<lambda>c. 0 < c_earnings c
                        \<and> Some (c_programId c) = ws_defaultProgramId workspace
                        \<and> (q_status q = None \<or> q_status q = Some (c_status c))
                        \<and> (q_type q = None \<or> q_type q = Some (c_type c))
                        \<and> (q_customerId q = None \<or> q_customerId q = Some (c_customerId c))
                        \<and> (q_payoutId q = None \<or> q_payoutId q = c_payoutId c)
                        \<and> (q_partnerId q = None \<or> q_partnerId q = Some (c_partnerId c))
                        \<and> startDate \<le> c_createdAt c \<and> c_createdAt c \<le> endDate)
                    (commissions s))
         \<and> sorted_wrt (\<lambda>a b. case q_sortOrder q of
                                 asc \<Rightarrow> q_sortBy q a \<le> q_sortBy q b
                               | desc \<Rightarrow> q_sortBy q b \<le> q_sortBy q a) sorted
         \<and> GET_commissions parseQuery getStartEndDates workspace searchParams s =
             (Inr (map (\<lambda>c. \<lparr>cr_commission = c,
                               cr_customer = find (\<lambda>cu. cu_id cu = c_customerId c) (customers s),
                               cr_partner = find (\<lambda>p. pt_id p = c_partnerId c) (partners s)\<rparr>)
                     (take (q_pageSize q) (drop ((q_page q - 1) * q_pageSize q) sorted))),
              s)"
proof -
  let ?wh = "\<lambda>c. c_earnings c > 0 \<and>
                 where_eq (searchParams ''programId'') (c_programId c) \<and>
                 where_eq (q_partnerId q) (c_partnerId c) \<and>
                 where_eq (q_status q) (c_status c) \<and>
                 where_eq (q_type q) (c_type c) \<and>
                 where_eq (q_customerId q) (c_customerId c) \<and>
                 where_eq_nullable (q_payoutId q) (c_payoutId c) \<and>
                 c_createdAt c \<ge> startDate \<and> c_createdAt c \<le> endDate"
  let ?sorted = "orderBy (q_sortBy q) (q_sortOrder q) (filter ?wh (commissions s))"
  let ?expand = "\<lambda>c. \<lparr>cr_commission = c,
                        cr_customer = find (\<lambda>cu. cu_id cu = c_customerId c) (customers s),
                        cr_partner = find (\<lambda>p. pt_id p = c_partnerId c) (partners s)\<rparr>"
  from assms(1) obtain p where p: "searchParams ''programId'' = Some p"
      "ws_defaultProgramId workspace = Some p"
    by (auto simp: strict_eq_def split: option.splits)
  have skip: "(int (q_page q) - 1) * int (q_pageSize q) = int ((q_page q - 1) * q_pageSize q)"
    using assms(4) by simp
  have expand: "include_customer_partner s = ?expand"
    by (simp add: fun_eq_iff include_customer_partner_def)
  have wh: "?wh = (\<lambda>c. 0 < c_earnings c
                        \<and> Some (c_programId c) = ws_defaultProgramId workspace
                        \<and> (q_status q = None \<or> q_status q = Some (c_status c))
                        \<and> (q_type q = None \<or> q_type q = Some (c_type c))
                        \<and> (q_customerId q = None \<or> q_customerId q = Some (c_customerId c))
                        \<and> (q_payoutId q = None \<or> q_payoutId q = c_payoutId c)
                        \<and> (q_partnerId q = None \<or> q_partnerId q = Some (c_partnerId c))
                        \<and> startDate \<le> c_createdAt c \<and> c_createdAt c \<le> endDate)"
    using p by (auto simp: where_eq_def where_eq_nullable_def fun_eq_iff split: option.splits)
  have "GET_commissions parseQuery getStartEndDates workspace searchParams s =
          (Inr (map ?expand
                  (take (q_pageSize q) (drop ((q_page q - 1) * q_pageSize q) ?sorted))), s)"
    using assms(1,2,3) skip
    by (simp add: GET_commissions_def commission_findMany_def expand Let_def del: of_nat_mult)
  moreover have "mset ?sorted = mset (filter ?wh (commissions s))"
    by (simp add: mset_orderBy)
  moreover have "sorted_wrt (\<lambda>a b. case q_sortOrder q of
                                 asc \<Rightarrow> q_sortBy q a \<le> q_sortBy q b
                               | desc \<Rightarrow> q_sortBy q b \<le> q_sortBy q a) ?sorted"
    by (rule sorted_orderBy)
  ultimately show ?thesis
    unfolding wh by blast
qed

text \<open>
  On the example store, newest first and two to a page: of \<open>cm_1\<close>, \<open>cm_3\<close> and
  \<open>cm_4\<close> the page holds \<open>cm_4\<close> and \<open>cm_3\<close>, each with the customer \<open>cus_1\<close> and the
  partner \<open>pb\<close>.
\<close>

theorem listCommissions_filter_order_page_witness:
  "(\<exists>sorted.
      mset sorted = {#cm_1, cm_3, cm_4#}
    \<and> sorted_wrt (\<lambda>a b. c_createdAt b \<le> c_createdAt a) sorted
    \<and> GET_commissions scenario_parse scenario_dates (ctx_workspace scenario_ctx)
        [''programId'' \<mapsto> ''prog_1''] scenario_db
      = (Inr (map (\<lambda>c. \<lparr>cr_commission = c,
                        cr_customer = find (\<lambda>cu. cu_id cu = c_customerId c)
                                        (customers scenario_db),
                        cr_partner = find (\<lambda>p. pt_id p = c_partnerId c)
                                       (partners scenario_db)\<rparr>)
                (take 2 sorted)), scenario_db))
   \<and> GET_commissions scenario_parse scenario_dates (ctx_workspace scenario_ctx)
        [''programId'' \<mapsto> ''prog_1''] scenario_db
      = (Inr [\<lparr>cr_commission = cm_4,
               cr_customer = Some \<lparr>cu_id = ''cus_1'', cu_name = ''Acme''\<rparr>,
               cr_partner = Some \<lparr>pt_id = ''pb'', pt_name = ''Bob'', pt_image = None,
                                   pt_email = None, pt_country = None\<rparr>\<rparr>,
              \<lparr>cr_commission = cm_3,
               cr_customer = Some \<lparr>cu_id = ''cus_1'', cu_name = ''Acme''\<rparr>,
               cr_partner = Some \<lparr>pt_id = ''pb'', pt_name = ''Bob'', pt_image = None,
                                   pt_email = None, pt_country = None\<rparr>\<rparr>],
         scenario_db)"
proof -
  let ?q = "\<lparr>q_status = None, q_type = None, q_customerId = None, q_payoutId = None,
             q_partnerId = None, q_page = 1, q_pageSize = 2, q_sortBy = c_createdAt,
             q_sortOrder = desc, q_start = None, q_end = None, q_interval = None\<rparr>"
  have h1: "strict_eq ([''programId'' \<mapsto> ''prog_1''] ''programId'')
              (ws_defaultProgramId (ctx_workspace scenario_ctx))"
    by (simp add: strict_eq_def scenario_defs)
  have h2: "scenario_parse [''programId'' \<mapsto> ''prog_1''] = Inr ?q"
    by (simp add: scenario_parse_def)
  have h3: "scenario_dates (q_interval ?q) (q_start ?q) (q_end ?q) = (0, 1000)"
    by (simp add: scenario_dates_def)
  have h4: "1 \<le> q_page ?q" by simp
  have f: "filter (\<lambda>c. 0 < c_earnings c
                        \<and> Some (c_programId c) = ws_defaultProgramId (ctx_workspace scenario_ctx)
                        \<and> 0 \<le> c_createdAt c \<and> c_createdAt c \<le> 1000)
                    (commissions scenario_db) = [cm_1, cm_3, cm_4]"
    by (simp add: scenario_defs)
  have page: "GET_commissions scenario_parse scenario_dates (ctx_workspace scenario_ctx)
        [''programId'' \<mapsto> ''prog_1''] scenario_db
      = (Inr [\<lparr>cr_commission = cm_4,
               cr_customer = Some \<lparr>cu_id = ''cus_1'', cu_name = ''Acme''\<rparr>,
               cr_partner = Some \<lparr>pt_id = ''pb'', pt_name = ''Bob'', pt_image = None,
                                   pt_email = None, pt_country = None\<rparr>\<rparr>,
              \<lparr>cr_commission = cm_3,
               cr_customer = Some \<lparr>cu_id = ''cus_1'', cu_name = ''Acme''\<rparr>,
               cr_partner = Some \<lparr>pt_id = ''pb'', pt_name = ''Bob'', pt_image = None,
                                   pt_email = None, pt_country = None\<rparr>\<rparr>],
         scenario_db)"
    by (simp add: query_defs scenario_defs)
  from listCommissions_filter_order_page
         [where searchParams = "[''programId'' \<mapsto> ''prog_1'']"
            and workspace = "ctx_workspace scenario_ctx" and parseQuery = scenario_parse
            and q = ?q and getStartEndDates = scenario_dates and startDate = 0
            and endDate = 1000 and s = scenario_db, OF h1 h2 h3 h4]
  have "\<exists>sorted.
      mset sorted = {#cm_1, cm_3, cm_4#}
    \<and> sorted_wrt (\<lambda>a b. c_createdAt b \<le> c_createdAt a) sorted
    \<and> GET_commissions scenario_parse scenario_dates (ctx_workspace scenario_ctx)
        [''programId'' \<mapsto> ''prog_1''] scenario_db
      = (Inr (map (\<lambda>c. \<lparr>cr_commission = c,
                        cr_customer = find (\<lambda>cu. cu_id cu = c_customerId c)
                                        (customers scenario_db),
                        cr_partner = find (\<lambda>p. pt_id p = c_partnerId c)
                                       (partners scenario_db)\<rparr>)
                (take 2 sorted)), scenario_db)"
    by (simp add: f)
  with page show ?thesis by blast
qed

text \<open>
  Claim C8, amended. For a request on the workspace's program and a discount that exists
  in that program, on a store that returns the rows of the enrollment table in some
  arrangement of them, \<open>listDiscountPartners\<close> returns, in the order in which the store
  returns the rows, the summary \<open>id\<close>, \<open>name\<close>, \<open>image\<close>, \<open>email\<close> of the partner of
  every enrollment whose \<open>discountId\<close> is the given discount: each such enrollment once,
  with no page cut, and the store is left as it was. The handler names no order, so the
  list need not be in the order of insertion.
\<close>

theorem listDiscountPartners_result:
  assumes "ws_defaultProgramId workspace = Some programId"
      and "parseQuery searchParams = Inr discountId"
      and "getDiscountOrThrow programId discountId s = Inr d"
      and "mset (readOrder s (programEnrollments s)) = mset (programEnrollments s)"
  shows "GET_discount_partners parseQuery workspace programId searchParams s =
           (Inr (map (\<lambda>pe. map_option
                             (\<lambda>p. \<lparr>ps_id = pt_id p, ps_name = pt_name p,
                                   ps_image = pt_image p, ps_email = pt_email p\<rparr>)
                             (find (\<lambda>p. pt_id p = pe_partnerId pe) (partners s)))
                   (filter (\<lambda>pe. pe_discountId pe = Some discountId)
                      (readOrder s (programEnrollments s)))),
            s)
       \<and> mset (filter (\<lambda>pe. pe_discountId pe = Some discountId)
                 (readOrder s (programEnrollments s)))
           = mset (filter (\<lambda>pe. pe_discountId pe = Some discountId) (programEnrollments s))"
proof -
  have "GET_discount_partners parseQuery workspace programId searchParams s =
           (Inr (map (\<lambda>pe. map_option
                             (\<lambda>p. \<lparr>ps_id = pt_id p, ps_name = pt_name p,
                                   ps_image = pt_image p, ps_email = pt_email p\<rparr>)
                             (find (\<lambda>p. pt_id p = pe_partnerId pe) (partners s)))
                   (filter (\<lambda>pe. pe_discountId pe = Some discountId)
                      (readOrder s (programEnrollments s)))),
            s)"
    using assms(1,2,3)
    by (simp add: GET_discount_partners_def strict_eq_def programEnrollment_findMany_def
          select_partner_def Let_def cong: map_cong)
  moreover have "mset (filter (\<lambda>pe. pe_discountId pe = Some discountId)
                         (readOrder s (programEnrollments s)))
                   = mset (filter (\<lambda>pe. pe_discountId pe = Some discountId)
                             (programEnrollments s))"
    using assms(4) by (simp only: mset_filter)
  ultimately show ?thesis by simp
qed

theorem listDiscountPartners_result_witness:
  "GET_discount_partners scenario_parse_discountId (ctx_workspace scenario_ctx) ''prog_1''
     [''discountId'' \<mapsto> ''disc_c''] keyed_db
   = (Inr [Some \<lparr>ps_id = ''pd'', ps_name = ''Dan'', ps_image = Some ''dan.png'',
                  ps_email = None\<rparr>,
           Some \<lparr>ps_id = ''pc'', ps_name = ''Cy'', ps_image = None,
                  ps_email = Some ''cy@example.com''\<rparr>],
      keyed_db)
   \<and> mset (filter (\<lambda>pe. pe_discountId pe = Some ''disc_c'')
             (readOrder keyed_db (programEnrollments keyed_db)))
     = mset (filter (\<lambda>pe. pe_discountId pe = Some ''disc_c'') (programEnrollments keyed_db))"
proof -
  have h1: "ws_defaultProgramId (ctx_workspace scenario_ctx) = Some ''prog_1''"
    by (simp add: scenario_defs)
  have h2: "scenario_parse_discountId [''discountId'' \<mapsto> ''disc_c''] = Inr ''disc_c''"
    by (simp add: scenario_parse_discountId_def)
  have h3: "getDiscountOrThrow ''prog_1'' ''disc_c'' keyed_db = Inr (discounts keyed_db ! 1)"
    by (simp add: keyed_db_def scenario_defs getDiscountOrThrow_def)
  have h4: "mset (readOrder keyed_db (programEnrollments keyed_db))
              = mset (programEnrollments keyed_db)"
    by (simp add: keyed_db_def)
  from listDiscountPartners_result
         [where workspace = "ctx_workspace scenario_ctx" and programId = "''prog_1''"
            and parseQuery = scenario_parse_discountId
            and searchParams = "[''discountId'' \<mapsto> ''disc_c'']"
            and discountId = "''disc_c''" and s = keyed_db
            and d = "discounts keyed_db ! 1", OF h1 h2 h3 h4]
  show ?thesis
    by (simp add: keyed_db_def scenario_defs)
qed

text \<open>
  As stated, with the list in the order of insertion, the claim fails on a store that
  returns rows in the order of the primary key: the enrollments on \<open>disc_c\<close> were
  inserted for \<open>pc\<close>, then \<open>pd\<close>, and the handler lists \<open>pd\<close>, then \<open>pc\<close>.
\<close>

theorem listDiscountPartners_not_insertion_order:
  "ws_defaultProgramId (ctx_workspace scenario_ctx) = Some ''prog_1''
   \<and> getDiscountOrThrow ''prog_1'' ''disc_c'' keyed_db = Inr (discounts keyed_db ! 1)
   \<and> map pe_partnerId
        (filter (\<lambda>pe. pe_discountId pe = Some ''disc_c'') (programEnrollments keyed_db))
       = [''pc'', ''pd'']
   \<and> GET_discount_partners scenario_parse_discountId (ctx_workspace scenario_ctx) ''prog_1''
       [''discountId'' \<mapsto> ''disc_c''] keyed_db
     = (Inr [Some \<lparr>ps_id = ''pd'', ps_name = ''Dan'', ps_image = Some ''dan.png'',
                    ps_email = None\<rparr>,
             Some \<lparr>ps_id = ''pc'', ps_name = ''Cy'', ps_image = None,
                    ps_email = Some ''cy@example.com''\<rparr>],
        keyed_db)"
  by (simp add: keyed_db_def scenario_defs scenario_parse_discountId_def
        GET_discount_partners_def getDiscountOrThrow_def strict_eq_def
        programEnrollment_findMany_def select_partner_def)

text \<open>
  Claim C9. When the \<open>programId\<close> of the request is not the default program of the
  caller's workspace, \<open>listCommissions\<close> and \<open>listDiscountPartners\<close> fail with
  \<open>not_found\<close>, whatever the query parser and the store are: neither is consulted.
  \<open>listDiscountPartners\<close> also fails with \<open>not_found\<close> when the program matches and no
  discount of that program has the given \<open>discountId\<close>.
\<close>

theorem list_endpoints_NotFound:
  "(\<not> (\<exists>p. searchParams ''programId'' = Some p \<and> ws_defaultProgramId workspace = Some p) \<longrightarrow>
      GET_commissions parseQuery getStartEndDates workspace searchParams s =
        (Inl (DubApiError ''not_found'' ''Program not found''), s))
   \<and> (ws_defaultProgramId workspace \<noteq> Some programId \<longrightarrow>
      GET_discount_partners parseQuery' workspace programId searchParams s =
        (Inl (DubApiError ''not_found'' ''Program not found''), s))
   \<and> (ws_defaultProgramId workspace = Some programId
        \<and> parseQuery' searchParams = Inr discountId
        \<and> \<not> (\<exists>d \<in> set (discounts s). d_id d = discountId \<and> d_programId d = programId) \<longrightarrow>
      GET_discount_partners parseQuery' workspace programId searchParams s =
        (Inl (DubApiError ''not_found'' ''Discount not found''), s))"
proof -
  have nf: "\<not> (\<exists>d \<in> set (discounts s). d_id d = discountId \<and> d_programId d = programId) \<Longrightarrow>
            getDiscountOrThrow programId discountId s =
              Inl (DubApiError ''not_found'' ''Discount not found'')"
    by (auto simp: getDiscountOrThrow_def find_None_iff split: option.splits)
  show ?thesis
    using nf
    by (auto simp: GET_commissions_def GET_discount_partners_def strict_eq_def Let_def
          split: option.splits)
qed

theorem list_endpoints_NotFound_witness:
  "GET_commissions scenario_parse scenario_dates (ctx_workspace scenario_ctx)
     [''programId'' \<mapsto> ''prog_2''] scenario_db
   = (Inl (DubApiError ''not_found'' ''Program not found''), scenario_db)
   \<and> GET_discount_partners scenario_parse_discountId (ctx_workspace scenario_ctx) ''prog_2''
       [''discountId'' \<mapsto> ''disc_c''] scenario_db
     = (Inl (DubApiError ''not_found'' ''Program not found''), scenario_db)
   \<and> GET_discount_partners scenario_parse_discountId (ctx_workspace scenario_ctx) ''prog_1''
       [''discountId'' \<mapsto> ''disc_zz''] scenario_db
     = (Inl (DubApiError ''not_found'' ''Discount not found''), scenario_db)"
  using list_endpoints_NotFound [where searchParams = "[''programId'' \<mapsto> ''prog_2'']"
              and workspace = "ctx_workspace scenario_ctx" and parseQuery = scenario_parse
              and getStartEndDates = scenario_dates and s = scenario_db
              and programId = "''prog_2''" and parseQuery' = scenario_parse_discountId
              and discountId = "''disc_c''"]
        list_endpoints_NotFound [where searchParams = "[''discountId'' \<mapsto> ''disc_c'']"
              and workspace = "ctx_workspace scenario_ctx" and parseQuery = scenario_parse
              and getStartEndDates = scenario_dates and s = scenario_db
              and programId = "''prog_2''" and parseQuery' = scenario_parse_discountId
              and discountId = "''disc_c''"]
        list_endpoints_NotFound [where searchParams = "[''discountId'' \<mapsto> ''disc_zz'']"
              and workspace = "ctx_workspace scenario_ctx" and parseQuery = scenario_parse
              and getStartEndDates = scenario_dates and s = scenario_db
              and programId = "''prog_1''" and parseQuery' = scenario_parse_discountId
              and discountId = "''disc_zz''"]
  by (simp add: scenario_defs scenario_parse_discountId_def)

section \<open>Properties of the webhook handler\<close>

lemmas webhook_defs = checkoutSessionCompleted_def scenario_session_def scenario_deps_def
  scenario_world_def log_def emit_def

text \<open>
  Claim C10, amended. For a checkout session whose mode is not \<open>setup\<close>: when the client
  reference or the customer is missing, the handler logs \<open>Missing items in Stripe webhook
  callback\<close> and returns normally; when both are present and the first item of the
  retrieved subscription has a price ID of no known plan, it writes the invalid price ID to
  the console and returns normally. In both cases nothing else changes: no workspace
  record is updated. As stated for every event the claim fails: a session of mode
  \<open>setup\<close> returns at line 20, before the tests, and nothing is logged.
\<close>

theorem checkoutSessionCompleted_early_exit:
  assumes "cs_mode cs \<noteq> ''setup''"
  shows "(cs_client_reference_id cs = None \<or> cs_customer cs = None \<longrightarrow>
            checkoutSessionCompleted dp today cs w =
              (Inr (),
               w\<lparr>effects := effects w @
                    [Log ''Missing items in Stripe webhook callback'' ''errors'']\<rparr>))
       \<and> (cs_client_reference_id cs \<noteq> None \<and> cs_customer cs \<noteq> None
            \<and> stripe_subscriptions_retrieve dp (cs_subscription cs) = Inr sub
            \<and> sub_items_data sub = item # rest
            \<and> getPlanFromPriceId dp (price_id (si_price item)) = None \<longrightarrow>
            checkoutSessionCompleted dp today cs w =
              (Inr (),
               w\<lparr>effects := effects w @
                    [ConsoleLog (''Invalid price ID in checkout.session.completed event: ''
                                   @ price_id (si_price item))]\<rparr>))"
  using assms
  by (auto simp: checkoutSessionCompleted_def log_def emit_def Let_def split: option.splits)

theorem checkoutSessionCompleted_early_exit_witness:
  "checkoutSessionCompleted scenario_deps 7
     (scenario_session ''subscription'' None (Some ''sub_1'')) scenario_world
   = (Inr (), scenario_world
        \<lparr>effects := [Log ''Missing items in Stripe webhook callback'' ''errors'']\<rparr>)
   \<and> checkoutSessionCompleted scenario_deps 7
       (scenario_session ''subscription'' (Some ''ws_1'') (Some ''sub_2'')) scenario_world
     = (Inr (), scenario_world
          \<lparr>effects :=
             [ConsoleLog ''Invalid price ID in checkout.session.completed event: price_old'']\<rparr>)"
  using checkoutSessionCompleted_early_exit [of "scenario_session ''subscription'' None (Some ''sub_1'')" scenario_deps 7
                scenario_world]
        checkoutSessionCompleted_early_exit [of "scenario_session ''subscription'' (Some ''ws_1'') (Some ''sub_2'')"
                scenario_deps 7 scenario_world
                "\<lparr>sub_items_data = [\<lparr>si_price = \<lparr>price_id = ''price_old''\<rparr>\<rparr>]\<rparr>"
                "\<lparr>si_price = \<lparr>price_id = ''price_old''\<rparr>\<rparr>" "[]"]
  by (simp add: scenario_session_def scenario_deps_def scenario_world_def)

text \<open>A session of mode \<open>setup\<close> with no client reference: the handler returns and the
  world, its log included, is as before.\<close>

theorem checkoutSessionCompleted_setup_not_logged:
  "cs_client_reference_id (scenario_session ''setup'' None None) = None
   \<and> checkoutSessionCompleted scenario_deps 7 (scenario_session ''setup'' None None)
       scenario_world = (Inr (), scenario_world)
   \<and> effects scenario_world = []"
  by (simp add: webhook_defs)

text \<open>
  The path past the early exits, on the example world: the subscription \<open>sub_1\<close> is on the
  plan \<open>Pro\<close>, so workspace \<open>ws_1\<close> gets the customer, the plan and its limits, its token
  gets the plan's rate limit, and the upgrade email to its one user is scheduled.
\<close>

lemma toLowerCase_Pro: "toLowerCase ''Pro'' = ''pro''"
  by code_simp

lemma checkoutSessionCompleted_upgrade:
  "checkoutSessionCompleted scenario_deps 7
     (scenario_session ''subscription'' (Some ''ws_1'') (Some ''sub_1'')) scenario_world
   = (Inr (),
      scenario_world
        \<lparr>projects :=
           [\<lparr>pr_id = ''ws_1'', pr_stripeId = Some ''cus_stripe_1'', pr_billingCycleStart = 7,
             pr_plan = ''pro'', pr_usageLimit = 50000, pr_linksLimit = 1000,
             pr_payoutsLimit = 0, pr_domainsLimit = 10, pr_aiLimit = 1000, pr_tagsLimit = 25,
             pr_foldersLimit = 3, pr_usersLimit = 5, pr_paymentFailedAt = None,
             pr_users = [\<lparr>usr_id = ''user_1'', usr_name = Some ''Ada'',
                          usr_email = Some ''ada@example.com'', usr_isMachine = False\<rparr>]\<rparr>],
         restrictedTokens :=
           [\<lparr>rt_projectId = ''ws_1'', rt_hashedKey = ''h1'', rt_rateLimit = 600\<rparr>],
         defaultDomainsTable := [\<lparr>dd_projectId = ''ws_1'', dd_dublink = True\<rparr>],
         redis := [''onboarding-step:user_1'' \<mapsto> RString ''completed''],
         effects := [TokenCacheExpireMany [''h1'']],
         scheduled :=
           [SendEmail (Some ''ada@example.com'') ''Thank you for upgrading to Dub Pro!'']\<rparr>)"
  by (simp add: webhook_defs limiter_schedule_def project_update_def completeOnboarding_def
        toLowerCase_Pro Let_def)

end
